theory Spec2Isabelle
  imports Main "HOL-Library.Word"
begin

section \<open>The Neynar client of farcaster-go (neynar/neynar.go)\<close>

text \<open>
  Go strings and byte slices are sequences of bytes: they are modelled as \<open>string\<close>
  (a list of 8-bit characters), so \<open>length\<close> is Go's \<open>len\<close>. \<open>uint64\<close> is a
  64-bit word, Go's \<open>int\<close> and \<open>time.Duration\<close> (nanoseconds) are \<open>int\<close>.
\<close>

type_synonym uint64 = "64 word"

subsection \<open>Constants\<close>

definition maxConcurrentRequests :: nat where
  "maxConcurrentRequests = 2"

definition maxRetries :: nat where
  "maxRetries = 12"

definition Millisecond :: int where
  "Millisecond = 1000000"

definition Second :: int where
  "Second = 1000 * Millisecond"

definition baseDelay :: int where
  "baseDelay = 1 * Second"

definition defaultRequestTimeout :: int where
  "defaultRequestTimeout = 10 * Second"

definition neynarCastCreatedType :: string where
  "neynarCastCreatedType = ''cast.created''"

definition neynarCastType :: string where
  "neynarCastType = ''cast''"

definition neynarReplyEndpoint :: string where
  "neynarReplyEndpoint = ''https://api.neynar.com/v2/farcaster/cast''"

definition MethodPost :: string where
  "MethodPost = ''POST''"

definition StatusOK :: int where
  "StatusOK = 200"

definition StatusTooManyRequests :: int where
  "StatusTooManyRequests = 429"

definition StatusBadRequest :: int where
  "StatusBadRequest = 400"

definition StatusUnauthorized :: int where
  "StatusUnauthorized = 401"

definition StatusInternalServerError :: int where
  "StatusInternalServerError = 500"

text \<open>\<open>hub.MaxCastBytes\<close> (warpcastclient/types.go).\<close>

definition MaxCastBytes :: nat where
  "MaxCastBytes = 350"

subsection \<open>Errors\<close>

text \<open>
  One constructor for each \<open>fmt.Errorf\<close> call site of the modelled functions, carrying the
  text that the format verb inserts. \<open>PanicNilDereference\<close> is not a returned error: it is
  the run-time panic of reading a field through a nil pointer, made a branch of the model.
\<close>

datatype error =
    ErrEmptyAPIKey
  | ErrUserNotSet
  | ErrContentTooLong
  | ErrMarshal string
  | ErrCreatingRequest string
  | ErrDownloadingJSON string
  | ErrStatus string
  | ErrReadingBody string
  | ErrRetryLimit
  | ErrUnmarshal string
  | ErrInvalidObject string
  | ErrParsingCastData error
  | ErrParsingTimestamp string
  | PanicNilDereference

text \<open>The message of each error, as \<open>err.Error()\<close> renders it.\<close>

fun Error :: "error \<Rightarrow> string" where
  "Error ErrEmptyAPIKey = ''empty API key''"
| "Error ErrUserNotSet = ''farcaster user not set''"
| "Error ErrContentTooLong = ''content is too long''"
| "Error (ErrMarshal e) = ''error marshalling request body: '' @ e"
| "Error (ErrCreatingRequest e) = ''error creating request: '' @ e"
| "Error (ErrDownloadingJSON e) = ''error downloading json: '' @ e"
| "Error (ErrStatus status) = ''error downloading json: '' @ status"
| "Error (ErrReadingBody e) = ''error reading response body: '' @ e"
| "Error ErrRetryLimit = ''error downloading json: exceeded retry limit''"
| "Error (ErrUnmarshal e) = ''error unmarshalling request body: '' @ e"
| "Error (ErrInvalidObject obj) =
     ''invalid object type: '' @ obj @ '' ('' @ neynarCastType @ '' expected)''"
| "Error (ErrParsingCastData e) = ''error parsing cast data: '' @ Error e"
| "Error (ErrParsingTimestamp e) = ''error parsing timestamp: '' @ e"
| "Error PanicNilDereference =
     ''runtime error: invalid memory address or nil pointer dereference''"

subsection \<open>Data\<close>

record ParentAPIMessage =
  FID :: uint64
  ParentHash :: string

record APIMessage =
  IsMention :: bool
  Content :: string
  Author :: uint64
  Hash :: string
  Parent :: "ParentAPIMessage option"
  Embeds :: "string list"

text \<open>
  The client. \<open>reqSemaphore\<close> and \<open>newCastsMtx\<close> only order concurrent callers; the
  sequential functions below leave them out, and the semaphore has its own model in
  the subsection on concurrent callers. \<open>newCasts\<close> is the mention queue, a Go map.
\<close>

record NeynarAPI =
  fid :: uint64
  username :: string
  signerUUID :: string
  apiKey :: string
  newCasts :: "uint64 \<rightharpoonup> APIMessage"

text \<open>
  \<open>NewNeynarAPI\<close> gives a client with no farcaster user (\<open>fid = 0\<close>), an empty queue
  and an empty semaphore channel.
\<close>

definition NewNeynarAPI :: "string \<Rightarrow> error + NeynarAPI" where
  "NewNeynarAPI key =
     (if key = [] then Inl ErrEmptyAPIKey
      else Inr \<lparr>fid = 0, username = [], signerUUID = [], apiKey = key, newCasts = Map.empty\<rparr>)"

subsection \<open>The request loop\<close>

text \<open>
  What one attempt sends, and what \<open>http.DefaultClient.Do\<close> gives back: an error, or a
  response with its status code, its status text and the outcome of \<open>io.ReadAll\<close> on
  its body (\<open>Inl\<close> a read error, \<open>Inr\<close> the bytes).
\<close>

record httpRequest =
  reqMethod :: string
  reqURL :: string
  reqApiKey :: string
  reqContentType :: string
  reqBody :: string
  reqTimeout :: int

datatype doResult =
    DoError string
  | DoResponse int string "string + string"

text \<open>
  The world outside the process: whether \<open>http.NewRequestWithContext\<close> accepts the
  method and URL, what the \<open>k\<close>-th call of \<open>Do\<close> of this request returns, and the
  value of \<open>util.RandomInt(0, 2000)\<close> drawn in attempt \<open>k\<close>.
\<close>

record requestEnv =
  newRequestWithContext :: "string \<Rightarrow> string \<Rightarrow> string option"
  clientDo :: "nat \<Rightarrow> httpRequest \<Rightarrow> doResult"
  randomInt :: "nat \<Rightarrow> int"

text \<open>
  The result of a run: the returned value, the HTTP calls performed, in order, and
  the durations slept between attempts.
\<close>

record requestRun =
  returned :: "error + string"
  calls :: "httpRequest list"
  sleeps :: "int list"

text \<open>
  The request of one attempt: \<open>http.NewRequestWithContext\<close> under the per-attempt
  timeout, with the two headers set.
\<close>

definition mkRequest :: "NeynarAPI \<Rightarrow> string \<Rightarrow> string \<Rightarrow> string \<Rightarrow> int \<Rightarrow> httpRequest" where
  "mkRequest n url method body timeout =
     \<lparr>reqMethod = method, reqURL = url, reqApiKey = apiKey n,
      reqContentType = ''application/json'', reqBody = body, reqTimeout = timeout\<rparr>"

text \<open>The status code of a response, if \<open>Do\<close> returned one.\<close>

fun statusCode :: "doResult \<Rightarrow> int option" where
  "statusCode (DoError e) = None"
| "statusCode (DoResponse code status rbody) = Some code"

definition backoff :: "requestEnv \<Rightarrow> nat \<Rightarrow> int" where
  "backoff env attempt = (int attempt + 1) * baseDelay + randomInt env attempt * Millisecond"

function requestLoop ::
  "requestEnv \<Rightarrow> NeynarAPI \<Rightarrow> string \<Rightarrow> string \<Rightarrow> string \<Rightarrow> int \<Rightarrow> nat \<Rightarrow>
   httpRequest list \<Rightarrow> int list \<Rightarrow> requestRun"
where
  "requestLoop env n url method body timeout attempt cs sl =
     (if attempt < maxRetries then
        (case newRequestWithContext env method url of
           Some e \<Rightarrow> \<lparr>returned = Inl (ErrCreatingRequest e), calls = cs, sleeps = sl\<rparr>
         | None \<Rightarrow>
            (let req = mkRequest n url method body timeout;
                 cs1 = cs @ [req]
             in case clientDo env attempt req of
                  DoError e \<Rightarrow> \<lparr>returned = Inl (ErrDownloadingJSON e), calls = cs1, sleeps = sl\<rparr>
                | DoResponse code status rbody \<Rightarrow>
                    if code = StatusTooManyRequests then
                      requestLoop env n url method body timeout (attempt + 1)
                        cs1 (sl @ [backoff env attempt])
                    else if code \<noteq> StatusOK then
                      \<lparr>returned = Inl (ErrStatus status), calls = cs1, sleeps = sl\<rparr>
                    else (case rbody of
                            Inl e \<Rightarrow> \<lparr>returned = Inl (ErrReadingBody e), calls = cs1, sleeps = sl\<rparr>
                          | Inr respBody \<Rightarrow> \<lparr>returned = Inr respBody, calls = cs1, sleeps = sl\<rparr>)))
      else \<lparr>returned = Inl ErrRetryLimit, calls = cs, sleeps = sl\<rparr>)"
  by pat_completeness auto
termination
  by (relation "measure (\<lambda>(env, n, url, method, body, timeout, attempt, cs, sl). maxRetries - attempt)")
     auto

declare requestLoop.simps [simp del]

definition request ::
  "requestEnv \<Rightarrow> NeynarAPI \<Rightarrow> string \<Rightarrow> string \<Rightarrow> string \<Rightarrow> int \<Rightarrow> requestRun"
where
  "request env n url method body timeout =
     requestLoop env n url method body timeout 0 [] []"

subsection \<open>Strings\<close>

text \<open>
  \<open>strings.HasPrefix\<close>, \<open>strings.HasSuffix\<close> and \<open>strings.TrimPrefix\<close> of the Go
  standard library, which compare bytes.
\<close>

definition HasPrefix :: "string \<Rightarrow> string \<Rightarrow> bool" where
  "HasPrefix s pre = (length pre \<le> length s \<and> take (length pre) s = pre)"

definition HasSuffix :: "string \<Rightarrow> string \<Rightarrow> bool" where
  "HasSuffix s suf = (length suf \<le> length s \<and> drop (length s - length suf) s = suf)"

definition TrimPrefix :: "string \<Rightarrow> string \<Rightarrow> string" where
  "TrimPrefix s pre = (if HasPrefix s pre then drop (length pre) s else s)"

text \<open>
  \<open>strings.TrimSpace\<close> removes the leading and the trailing white space, as
  \<open>unicode.IsSpace\<close> defines it, reading the string as UTF-8. A white-space rune is
  removed exactly when its UTF-8 encoding stands at that end of the string: a byte
  sequence that does not decode is the rune U+FFFD, which is no white space.
  \<open>unicodeSpaces\<close> lists the UTF-8 encodings of the white-space runes: U+0009 to
  U+000D, U+0020, U+0085, U+00A0, U+1680, U+2000 to U+200A, U+2028, U+2029, U+202F,
  U+205F and U+3000.
\<close>

definition unicodeSpaces :: "string list" where
  "unicodeSpaces =
     [[CHR 0x09], [CHR 0x0A], [CHR 0x0B], [CHR 0x0C], [CHR 0x0D], [CHR 0x20],
      [CHR 0xC2, CHR 0x85], [CHR 0xC2, CHR 0xA0], [CHR 0xE1, CHR 0x9A, CHR 0x80],
      [CHR 0xE2, CHR 0x80, CHR 0x80], [CHR 0xE2, CHR 0x80, CHR 0x81],
      [CHR 0xE2, CHR 0x80, CHR 0x82], [CHR 0xE2, CHR 0x80, CHR 0x83],
      [CHR 0xE2, CHR 0x80, CHR 0x84], [CHR 0xE2, CHR 0x80, CHR 0x85],
      [CHR 0xE2, CHR 0x80, CHR 0x86], [CHR 0xE2, CHR 0x80, CHR 0x87],
      [CHR 0xE2, CHR 0x80, CHR 0x88], [CHR 0xE2, CHR 0x80, CHR 0x89],
      [CHR 0xE2, CHR 0x80, CHR 0x8A], [CHR 0xE2, CHR 0x80, CHR 0xA8],
      [CHR 0xE2, CHR 0x80, CHR 0xA9], [CHR 0xE2, CHR 0x80, CHR 0xAF],
      [CHR 0xE2, CHR 0x81, CHR 0x9F], [CHR 0xE3, CHR 0x80, CHR 0x80]]"

definition leadingSpace :: "string \<Rightarrow> string option" where
  "leadingSpace s = find (HasPrefix s) unicodeSpaces"

definition trailingSpace :: "string \<Rightarrow> string option" where
  "trailingSpace s = find (HasSuffix s) unicodeSpaces"

function TrimLeftSpace :: "string \<Rightarrow> string" where
  "TrimLeftSpace s =
     (case leadingSpace s of
        None \<Rightarrow> s
      | Some sp \<Rightarrow> TrimLeftSpace (drop (length sp) s))"
  by pat_completeness auto
termination
proof (relation "measure length")
  show "wf (measure (length :: string \<Rightarrow> nat))"
    by simp
next
  fix s sp :: string
  assume "leadingSpace s = Some sp"
  then have "sp \<in> set unicodeSpaces" and "HasPrefix s sp"
    by (auto simp: leadingSpace_def find_Some_iff)
  then have "0 < length sp" and "length sp \<le> length s"
    by (auto simp: unicodeSpaces_def HasPrefix_def)
  then show "(drop (length sp) s, s) \<in> measure length"
    by (cases sp) auto
qed

function TrimRightSpace :: "string \<Rightarrow> string" where
  "TrimRightSpace s =
     (case trailingSpace s of
        None \<Rightarrow> s
      | Some sp \<Rightarrow> TrimRightSpace (take (length s - length sp) s))"
  by pat_completeness auto
termination
proof (relation "measure length")
  show "wf (measure (length :: string \<Rightarrow> nat))"
    by simp
next
  fix s sp :: string
  assume "trailingSpace s = Some sp"
  then have "sp \<in> set unicodeSpaces" and "HasSuffix s sp"
    by (auto simp: trailingSpace_def find_Some_iff)
  then have "0 < length sp" and "length sp \<le> length s"
    by (auto simp: unicodeSpaces_def HasSuffix_def)
  then show "(take (length s - length sp) s, s) \<in> measure length"
    by (cases sp) auto
qed

declare TrimLeftSpace.simps [simp del]
declare TrimRightSpace.simps [simp del]

definition TrimSpace :: "string \<Rightarrow> string" where
  "TrimSpace s = TrimRightSpace (TrimLeftSpace s)"

subsection \<open>Casts received from the API\<close>

text \<open>
  Modelled from the spec: the declarations of \<open>castWebhookData\<close>, \<open>castsWebhookRequest\<close>
  and \<open>castPostRequest\<close> (neynar/types.go) are not among the sources. The records hold
  the fields that neynar.go reads and writes: \<open>dAuthorFid\<close> is \<open>data.Author.Fid\<close>,
  \<open>dParentAuthor\<close> is the pointer \<open>data.ParentAuthor\<close> (\<open>None\<close> when nil, else its
  \<open>FID\<close>), \<open>dEmbeds\<close> the \<open>Url\<close> of each embed, and \<open>wData\<close> the pointer
  \<open>castWebhookReq.Data\<close>.
\<close>

record castWebhookData =
  dObject :: string
  dText :: string
  dAuthorFid :: uint64
  dHash :: string
  dParentAuthor :: "uint64 option"
  dParentHash :: string
  dEmbeds :: "string list"
  dTimestamp :: string

record castsWebhookRequest =
  wType :: string
  wData :: "castWebhookData option"

record castPostRequest =
  pSigner :: string
  pText :: string
  pParent :: string
  pEmbeds :: "string list"

text \<open>
  \<open>parseCastData\<close> writes the trimmed text back through its pointer argument, so the
  model returns the updated data next to the message.
\<close>

definition parseCastData :: "NeynarAPI \<Rightarrow> castWebhookData \<Rightarrow> error + castWebhookData \<times> APIMessage" where
  "parseCastData n data =
     (if dObject data \<noteq> neynarCastType then Inl (ErrInvalidObject (dObject data))
      else
        let mentionNeedle = ''@'' @ username n;
            isMention = (\<not> HasPrefix (dText data) mentionNeedle);
            data1 = (if isMention
                     then data\<lparr>dText := TrimSpace (TrimPrefix (dText data) mentionNeedle)\<rparr>
                     else data);
            message = \<lparr>IsMention = isMention,
                       Content = dText data1,
                       Author = dAuthorFid data1,
                       Hash = dHash data1,
                       Parent = (case dParentAuthor data1 of
                                   None \<Rightarrow> None
                                 | Some pfid \<Rightarrow> Some \<lparr>FID = pfid, ParentHash = dParentHash data1\<rparr>),
                       Embeds = dEmbeds data1\<rparr>
        in Inr (data1, message))"

subsection \<open>The mention queue\<close>

text \<open>
  The functions of the Go standard library that the client calls on bytes from outside:
  \<open>json.Unmarshal\<close> into a \<open>castsWebhookRequest\<close>, \<open>time.Parse\<close> under a layout
  (giving the Unix seconds of the parsed time), \<open>json.Marshal\<close> of a
  \<open>castPostRequest\<close>, and the hex encoding of the HMAC-SHA512 of a body under a secret.
  \<open>Inl\<close> carries the text of the library's error.
\<close>

record stdlib =
  jsonUnmarshal :: "string \<Rightarrow> string + castsWebhookRequest"
  timeParse :: "string \<Rightarrow> string \<Rightarrow> string + int"
  jsonMarshal :: "castPostRequest \<Rightarrow> string + string"
  hmacSHA512Hex :: "string \<Rightarrow> string \<Rightarrow> string"

definition timeLayout :: string where
  "timeLayout = ''2006-01-02T15:04:05.000Z''"

text \<open>The store under the lock, in \<open>WebhookMentionsHandler\<close>: \<open>n.newCasts[ts] = message\<close>.\<close>

definition Record :: "uint64 \<Rightarrow> APIMessage \<Rightarrow> NeynarAPI \<Rightarrow> NeynarAPI" where
  "Record ts message n = n\<lparr>newCasts := (newCasts n)(ts \<mapsto> message)\<rparr>"

definition WebhookMentionsHandler :: "stdlib \<Rightarrow> string \<Rightarrow> NeynarAPI \<Rightarrow> error option \<times> NeynarAPI" where
  "WebhookMentionsHandler lib body n =
     (case jsonUnmarshal lib body of
        Inl e \<Rightarrow> (Some (ErrUnmarshal e), n)
      | Inr castWebhookReq \<Rightarrow>
          if wType castWebhookReq \<noteq> neynarCastCreatedType then (None, n)
          else
            (case wData castWebhookReq of
               None \<Rightarrow> (Some PanicNilDereference, n)
             | Some data \<Rightarrow>
                 (case parseCastData n data of
                    Inl e \<Rightarrow> (Some (ErrParsingCastData e), n)
                  | Inr (data1, message) \<Rightarrow>
                      (case timeParse lib timeLayout (dTimestamp data1) of
                         Inl e \<Rightarrow> (Some (ErrParsingTimestamp e), n)
                       | Inr unix \<Rightarrow> (None, Record (word_of_int unix) message n)))))"

text \<open>
  \<open>LastMentions\<close> ranges over the Go map, whose iteration order is not specified:
  \<open>order\<close> is the order in which this run of the loop visits the keys. It is an
  enumeration of the keys of the map when it is distinct and its set is the domain; a
  key that the map does not hold is passed over.
\<close>

fun rangeNewCasts ::
  "(uint64 \<rightharpoonup> APIMessage) \<Rightarrow> uint64 \<Rightarrow> uint64 list \<Rightarrow> APIMessage list \<Rightarrow> uint64 \<Rightarrow>
   APIMessage list \<times> uint64"
where
  "rangeNewCasts m timestamp [] messages lastTimestamp = (messages, lastTimestamp)"
| "rangeNewCasts m timestamp (ts # rest) messages lastTimestamp =
     (case m ts of
        None \<Rightarrow> rangeNewCasts m timestamp rest messages lastTimestamp
      | Some msg \<Rightarrow>
          if ts > timestamp then rangeNewCasts m timestamp rest (messages @ [msg]) ts
          else rangeNewCasts m timestamp rest messages lastTimestamp)"

definition LastMentions ::
  "NeynarAPI \<Rightarrow> uint64 list \<Rightarrow> uint64 \<Rightarrow> (error + APIMessage list \<times> uint64) \<times> NeynarAPI"
where
  "LastMentions n order timestamp =
     (if fid n = 0 then (Inl ErrUserNotSet, n)
      else (Inr (rangeNewCasts (newCasts n) timestamp order [] timestamp),
            n\<lparr>newCasts := Map.empty\<rparr>))"

subsection \<open>The webhook endpoint\<close>

definition verifyRequest :: "stdlib \<Rightarrow> string \<Rightarrow> string \<Rightarrow> string \<Rightarrow> bool \<times> error option" where
  "verifyRequest lib secret signature body =
     (let bodySig = hmacSHA512Hex lib secret body in (signature = bodySig, None))"

text \<open>
  The incoming request is the outcome of \<open>io.ReadAll(r.Body)\<close> and the value of the
  header \<open>X-Neynar-Signature\<close> (empty when absent). The response writer holds the status
  code once the header is written, the bytes written, and whether writing fails.
\<close>

record webhookRequest =
  inBody :: "string + string"
  inSignature :: string

record responseWriter =
  wStatus :: "int option"
  wBody :: string
  wBroken :: bool

definition WriteHeader :: "int \<Rightarrow> responseWriter \<Rightarrow> responseWriter" where
  "WriteHeader code w = (case wStatus w of None \<Rightarrow> w\<lparr>wStatus := Some code\<rparr> | Some c \<Rightarrow> w)"

definition Write :: "string \<Rightarrow> responseWriter \<Rightarrow> responseWriter \<times> bool" where
  "Write bs w =
     (let w1 = WriteHeader StatusOK w
      in if wBroken w1 then (w1, True) else (w1\<lparr>wBody := wBody w1 @ bs\<rparr>, False))"

definition httpError :: "responseWriter \<Rightarrow> string \<Rightarrow> int \<Rightarrow> responseWriter" where
  "httpError w msg code = fst (Write (msg @ [CHR 0x0A]) (WriteHeader code w))"

text \<open>
  The call of the payload handler and the answer that follows it. A panic of the handler
  leaves the function at once, with nothing written.
\<close>

definition runHandler ::
  "(string \<Rightarrow> 's \<Rightarrow> error option \<times> 's) \<Rightarrow> string \<Rightarrow> responseWriter \<Rightarrow> 's \<Rightarrow> responseWriter \<times> 's"
where
  "runHandler handler bs w s =
     (case handler bs s of
        (Some PanicNilDereference, s1) \<Rightarrow> (w, s1)
      | (Some err, s1) \<Rightarrow>
          (fst (Write ''error handling webhook'' (WriteHeader StatusInternalServerError w)), s1)
      | (None, s1) \<Rightarrow> (fst (Write ''ok'' w), s1))"

definition WebhookHttpHandler ::
  "stdlib \<Rightarrow> string \<Rightarrow> (string \<Rightarrow> 's \<Rightarrow> error option \<times> 's) \<Rightarrow>
   webhookRequest \<Rightarrow> responseWriter \<Rightarrow> 's \<Rightarrow> responseWriter \<times> 's"
where
  "WebhookHttpHandler lib webhookSecret handler r w s =
     (case inBody r of
        Inl e \<Rightarrow> (httpError w ''error reading request body'' StatusBadRequest, s)
      | Inr bs \<Rightarrow>
          (case verifyRequest lib webhookSecret (inSignature r) bs of
             (verified, Some err) \<Rightarrow>
               (case Write ''error verifying request'' (WriteHeader StatusBadRequest w) of
                  (w1, True) \<Rightarrow> (w1, s)
                | (w1, False) \<Rightarrow>
                    if \<not> verified
                    then (fst (Write ''request not verified'' (WriteHeader StatusUnauthorized w1)), s)
                    else runHandler handler bs w1 s)
           | (verified, None) \<Rightarrow> runHandler handler bs w s))"

subsection \<open>Posting casts\<close>

text \<open>
  \<open>Publish\<close> and \<open>Reply\<close> return their error, and the model adds the HTTP calls they
  performed and the client after the call. \<open>Reply\<close> reads \<open>targetMsg.Hash\<close> through a
  pointer, which panics when it is nil. Both end with the same steps, \<open>postCast\<close>:
  marshal the request body and send it with \<open>request\<close>.
\<close>

definition postCast ::
  "stdlib \<Rightarrow> requestEnv \<Rightarrow> NeynarAPI \<Rightarrow> castPostRequest \<Rightarrow> int \<Rightarrow>
   error option \<times> httpRequest list \<times> NeynarAPI"
where
  "postCast lib env n castReq timeout =
     (case jsonMarshal lib castReq of
        Inl e \<Rightarrow> (Some (ErrMarshal e), [], n)
      | Inr body \<Rightarrow>
          (let run = request env n neynarReplyEndpoint MethodPost body timeout
           in (case returned run of Inl err \<Rightarrow> Some err | Inr respBody \<Rightarrow> None, calls run, n)))"

definition Publish ::
  "stdlib \<Rightarrow> requestEnv \<Rightarrow> NeynarAPI \<Rightarrow> string \<Rightarrow> string list \<Rightarrow>
   error option \<times> httpRequest list \<times> NeynarAPI"
where
  "Publish lib env n content embeds =
     (if fid n = 0 then (Some ErrUserNotSet, [], n)
      else if length content > MaxCastBytes then (Some ErrContentTooLong, [], n)
      else postCast lib env n
             \<lparr>pSigner = signerUUID n, pText = content, pParent = [], pEmbeds = embeds\<rparr>
             defaultRequestTimeout)"

definition Reply ::
  "stdlib \<Rightarrow> requestEnv \<Rightarrow> NeynarAPI \<Rightarrow> APIMessage option \<Rightarrow> string \<Rightarrow> string list \<Rightarrow>
   error option \<times> httpRequest list \<times> NeynarAPI"
where
  "Reply lib env n targetMsg content embeds =
     (if fid n = 0 then (Some ErrUserNotSet, [], n)
      else if length content > MaxCastBytes then (Some ErrContentTooLong, [], n)
      else (case targetMsg of
              None \<Rightarrow> (Some PanicNilDereference, [], n)
            | Some target \<Rightarrow>
                postCast lib env n
                  \<lparr>pSigner = signerUUID n, pText = content, pParent = Hash target,
                   pEmbeds = embeds\<rparr>
                  0))"

subsection \<open>Concurrent callers and the semaphore\<close>

text \<open>
  Callers of \<open>request\<close> run as goroutines that share the client, and so the channel
  \<open>reqSemaphore\<close> of capacity \<open>maxConcurrentRequests\<close> that \<open>NewNeynarAPI\<close> makes.
  Nothing but the send and the receive around \<open>http.DefaultClient.Do\<close> touches the
  channel, so a goroutine is followed through these points of \<open>request\<close>, each with the
  attempt it is in:
  \<^item> \<open>Outside\<close>: not in \<open>request\<close>;
  \<^item> \<open>ForLoop\<close>: at the loop test, before the request is built;
  \<^item> \<open>SemSend\<close>: at \<open>n.reqSemaphore <- struct{}{}\<close>, which blocks while the channel is full;
  \<^item> \<open>ClientDo\<close>: inside \<open>http.DefaultClient.Do(req)\<close>, the call in flight;
  \<^item> \<open>SemRecv\<close>: \<open>Do\<close> has returned, at \<open><-n.reqSemaphore\<close>;
  \<^item> \<open>Classify\<close>: at the tests of the error and of the status code;
  \<^item> \<open>Sleeping\<close>: in \<open>time.Sleep\<close> after a 429.
\<close>

datatype pc =
    Outside
  | ForLoop nat
  | SemSend nat
  | ClientDo nat
  | SemRecv nat doResult
  | Classify nat doResult
  | Sleeping nat

text \<open>
  One step of one goroutine. The event names the goroutine that runs and carries what the
  world answers at that point: whether \<open>http.NewRequestWithContext\<close> fails, and what
  \<open>Do\<close> returns. \<open>reqSemaphore\<close> is the number of values in the channel.
\<close>

record event =
  evGoroutine :: nat
  evNewRequestFails :: bool
  evDoResult :: doResult

record clientRun =
  goroutines :: "pc list"
  reqSemaphore :: nat

text \<open>
  \<open>stepPC\<close> gives the channel and the point after the step, or \<open>None\<close> when the
  goroutine is blocked: a send on a full channel, a receive on an empty one.
\<close>

fun stepPC :: "nat \<Rightarrow> pc \<Rightarrow> event \<Rightarrow> (nat \<times> pc) option" where
  "stepPC sem Outside ev = Some (sem, ForLoop 0)"
| "stepPC sem (ForLoop attempt) ev =
     (if attempt < maxRetries then
        (if evNewRequestFails ev then Some (sem, Outside) else Some (sem, SemSend attempt))
      else Some (sem, Outside))"
| "stepPC sem (SemSend attempt) ev =
     (if sem < maxConcurrentRequests then Some (sem + 1, ClientDo attempt) else None)"
| "stepPC sem (ClientDo attempt) ev = Some (sem, SemRecv attempt (evDoResult ev))"
| "stepPC sem (SemRecv attempt res) ev =
     (if 0 < sem then Some (sem - 1, Classify attempt res) else None)"
| "stepPC sem (Classify attempt res) ev =
     (case res of
        DoError e \<Rightarrow> Some (sem, Outside)
      | DoResponse code status rbody \<Rightarrow>
          if code = StatusTooManyRequests then Some (sem, Sleeping attempt)
          else Some (sem, Outside))"
| "stepPC sem (Sleeping attempt) ev = Some (sem, ForLoop (attempt + 1))"

definition step :: "clientRun \<Rightarrow> event \<Rightarrow> clientRun option" where
  "step s ev =
     (if evGoroutine ev < length (goroutines s) then
        (case stepPC (reqSemaphore s) (goroutines s ! evGoroutine ev) ev of
           None \<Rightarrow> None
         | Some (sem1, pc1) \<Rightarrow>
             Some \<lparr>goroutines = (goroutines s)[evGoroutine ev := pc1], reqSemaphore = sem1\<rparr>)
      else None)"

text \<open>
  A schedule is a list of events. It is run from \<open>initialRun\<close>, where every goroutine
  is outside \<open>request\<close> and the channel is empty, as \<open>NewNeynarAPI\<close> makes it; it has no
  run when it picks a goroutine that is blocked or does not exist.
\<close>

fun exec :: "clientRun \<Rightarrow> event list \<Rightarrow> clientRun option" where
  "exec s [] = Some s"
| "exec s (ev # evs) = (case step s ev of None \<Rightarrow> None | Some s1 \<Rightarrow> exec s1 evs)"

definition initialRun :: "nat \<Rightarrow> clientRun" where
  "initialRun callers = \<lparr>goroutines = replicate callers Outside, reqSemaphore = 0\<rparr>"

text \<open>
  The calls in flight are the goroutines inside \<open>Do\<close>; the permits held are those of
  the goroutines between their send and their receive.
\<close>

fun inDo :: "pc \<Rightarrow> bool" where
  "inDo (ClientDo attempt) = True"
| "inDo p = False"

fun betweenSendAndRecv :: "pc \<Rightarrow> bool" where
  "betweenSendAndRecv (ClientDo attempt) = True"
| "betweenSendAndRecv (SemRecv attempt res) = True"
| "betweenSendAndRecv p = False"

definition inFlight :: "clientRun \<Rightarrow> nat" where
  "inFlight s = length (filter inDo (goroutines s))"

definition permitsHeld :: "clientRun \<Rightarrow> nat" where
  "permitsHeld s = length (filter betweenSendAndRecv (goroutines s))"

text \<open>
  One goroutine that runs \<open>request\<close> alone, stepped until it has returned: \<open>world\<close>
  gives the event of each attempt, and \<open>doCalls\<close> counts the entries into \<open>Do\<close>.
  \<open>worldOf\<close> is the world that answers as a \<open>requestEnv\<close> does. \<open>pcRank\<close> orders
  the points of the loop and serves for termination only.
\<close>

fun attemptOf :: "pc \<Rightarrow> nat" where
  "attemptOf Outside = 0"
| "attemptOf (ForLoop attempt) = attempt"
| "attemptOf (SemSend attempt) = attempt"
| "attemptOf (ClientDo attempt) = attempt"
| "attemptOf (SemRecv attempt res) = attempt"
| "attemptOf (Classify attempt res) = attempt"
| "attemptOf (Sleeping attempt) = attempt"

definition worldOf ::
  "requestEnv \<Rightarrow> NeynarAPI \<Rightarrow> string \<Rightarrow> string \<Rightarrow> string \<Rightarrow> int \<Rightarrow> nat \<Rightarrow> event"
where
  "worldOf env n url method body timeout attempt =
     \<lparr>evGoroutine = 0,
      evNewRequestFails = (newRequestWithContext env method url \<noteq> None),
      evDoResult = clientDo env attempt (mkRequest n url method body timeout)\<rparr>"

fun pcRank :: "pc \<Rightarrow> nat" where
  "pcRank Outside = 0"
| "pcRank (ForLoop attempt) = (if attempt < maxRetries then 7 * (maxRetries - attempt) + 7 else 1)"
| "pcRank (SemSend attempt) = 7 * (maxRetries - attempt) + 6"
| "pcRank (ClientDo attempt) = 7 * (maxRetries - attempt) + 5"
| "pcRank (SemRecv attempt res) = 7 * (maxRetries - attempt) + 4"
| "pcRank (Classify attempt res) = 7 * (maxRetries - attempt) + 3"
| "pcRank (Sleeping attempt) = 7 * (maxRetries - attempt) + 2"

function soloRun :: "(nat \<Rightarrow> event) \<Rightarrow> nat \<Rightarrow> pc \<Rightarrow> nat \<Rightarrow> (nat \<times> nat) option" where
  "soloRun world sem p doCalls =
     (if p = Outside then Some (sem, doCalls)
      else (case stepPC sem p (world (attemptOf p)) of
              None \<Rightarrow> None
            | Some (sem1, p1) \<Rightarrow>
                soloRun world sem1 p1 (if inDo p1 then doCalls + 1 else doCalls)))"
  by pat_completeness auto
termination
proof (relation "measure (\<lambda>(world, sem, p, doCalls). pcRank p)")
  show "wf (measure (\<lambda>(world :: nat \<Rightarrow> event, sem :: nat, p, doCalls :: nat). pcRank p))"
    by simp
next
  fix world :: "nat \<Rightarrow> event" and sem p doCalls x2 x y
  assume "p \<noteq> Outside" and "stepPC sem p (world (attemptOf p)) = Some x2" and "(x, y) = x2"
  then have "pcRank y < pcRank p"
    by (cases p) (auto split: if_splits doResult.splits)
  then show "((world, x, y, if inDo y then doCalls + 1 else doCalls), world, sem, p, doCalls)
        \<in> measure (\<lambda>(world, sem, p, doCalls). pcRank p)"
    by simp
qed

declare soloRun.simps [simp del]

definition semInv :: "clientRun \<Rightarrow> bool" where
  "semInv s = (reqSemaphore s = permitsHeld s \<and> reqSemaphore s \<le> maxConcurrentRequests)"

subsection \<open>Example inputs\<close>

text \<open>
  A client whose user is set, the client as \<open>NewNeynarAPI\<close> returns it, and a transport
  that throttles the first \<open>k\<close> calls.
\<close>

definition exampleClient :: NeynarAPI where
  "exampleClient = \<lparr>fid = 7, username = ''bot'', signerUUID = ''signer'', apiKey = ''key'',
     newCasts = Map.empty\<rparr>"

definition freshClient :: NeynarAPI where
  "freshClient = \<lparr>fid = 0, username = [], signerUUID = [], apiKey = ''key'',
     newCasts = Map.empty\<rparr>"

definition throttledThen :: "nat \<Rightarrow> doResult \<Rightarrow> requestEnv" where
  "throttledThen k r =
     \<lparr>newRequestWithContext = (\<lambda>method url. None),
      clientDo = (\<lambda>i req. if i < k then DoResponse 429 ''429 Too Many Requests'' (Inr [])
                           else r),
      randomInt = (\<lambda>i. 0)\<rparr>"

text \<open>
  A cast as the webhook delivers it, a queued message, and a stand-in for the library
  functions, defined on the few inputs that the examples use.
\<close>

definition castWith :: "string \<Rightarrow> castWebhookData" where
  "castWith text = \<lparr>dObject = ''cast'', dText = text, dAuthorFid = 3, dHash = ''0xabc'',
     dParentAuthor = None, dParentHash = [], dEmbeds = [], dTimestamp = ''2024-03-01T10:00:00.000Z''\<rparr>"

definition messageWith :: "string \<Rightarrow> APIMessage" where
  "messageWith text = \<lparr>IsMention = True, Content = text, Author = 3, Hash = ''0xabc'',
     Parent = None, Embeds = []\<rparr>"

definition exampleLib :: stdlib where
  "exampleLib =
     \<lparr>jsonUnmarshal = (\<lambda>body.
        if body = ''cast'' then Inr \<lparr>wType = ''cast.created'', wData = Some (castWith ''hello'')\<rparr>
        else if body = ''follow'' then Inr \<lparr>wType = ''follow.created'', wData = None\<rparr>
        else Inl ''unexpected end of JSON input''),
      timeParse = (\<lambda>layout v.
        if v = ''2024-03-01T10:00:00.000Z'' then Inr 1709287200 else Inl ''cannot parse''),
      jsonMarshal = (\<lambda>req. Inr (pText req)),
      hmacSHA512Hex = (\<lambda>secret body. replicate 128 CHR ''0'')\<rparr>"

text \<open>The step of goroutine \<open>i\<close> in a world that answers every call with 429.\<close>

definition throttledStep :: "nat \<Rightarrow> event" where
  "throttledStep i =
     \<lparr>evGoroutine = i, evNewRequestFails = False,
      evDoResult = DoResponse 429 ''429 Too Many Requests'' (Inr [])\<rparr>"

section \<open>Properties of the request loop\<close>

lemma requestLoop_429_step:
  assumes "newRequestWithContext env method url = None"
    and "statusCode (clientDo env a (mkRequest n url method body timeout)) = Some StatusTooManyRequests"
    and "a < maxRetries"
  shows "requestLoop env n url method body timeout a cs sl =
        requestLoop env n url method body timeout (Suc a)
          (cs @ [mkRequest n url method body timeout]) (sl @ [backoff env a])"
proof (cases "clientDo env a (mkRequest n url method body timeout)")
  case (DoError e)
  with assms(2) show ?thesis by simp
next
  case (DoResponse code st b)
  with assms show ?thesis
    by (subst requestLoop.simps) simp
qed

lemma requestLoop_throttled_steps:
  assumes nr: "newRequestWithContext env method url = None"
    and th: "\<forall>i. a \<le> i \<and> i < a + k \<longrightarrow>
          statusCode (clientDo env i (mkRequest n url method body timeout)) = Some StatusTooManyRequests"
    and le: "a + k \<le> maxRetries"
  shows "requestLoop env n url method body timeout a cs sl =
         requestLoop env n url method body timeout (a + k)
           (cs @ replicate k (mkRequest n url method body timeout))
           (sl @ map (backoff env) [a ..< a + k])"
  using th le
proof (induction k arbitrary: a cs sl)
  case 0
  then show ?case by simp
next
  case (Suc k)
  let ?req = "mkRequest n url method body timeout"
  have d: "statusCode (clientDo env a ?req) = Some StatusTooManyRequests"
    using Suc.prems(1) by simp
  have lt: "a < maxRetries" using Suc.prems by simp
  have step: "requestLoop env n url method body timeout a cs sl =
        requestLoop env n url method body timeout (Suc a) (cs @ [?req]) (sl @ [backoff env a])"
    by (rule requestLoop_429_step [OF nr d lt])
  have ih: "requestLoop env n url method body timeout (Suc a) (cs @ [?req]) (sl @ [backoff env a]) =
        requestLoop env n url method body timeout (Suc a + k)
           ((cs @ [?req]) @ replicate k ?req) ((sl @ [backoff env a]) @ map (backoff env) [Suc a ..< Suc a + k])"
    by (rule Suc.IH) (use Suc.prems in auto)
  have u: "[a ..< a + Suc k] = a # [Suc a ..< Suc a + k]"
    by (simp add: upt_conv_Cons)
  have r: "replicate (Suc k) ?req = ?req # replicate k ?req" by simp
  show ?case
    unfolding step ih u r by simp
qed

lemma request_throttled_prefix:
  assumes "newRequestWithContext env method url = None"
    and "\<forall>i<k. statusCode (clientDo env i (mkRequest n url method body timeout)) = Some StatusTooManyRequests"
    and "k \<le> maxRetries"
  shows "request env n url method body timeout =
         requestLoop env n url method body timeout k
           (replicate k (mkRequest n url method body timeout)) (map (backoff env) [0 ..< k])"
  using requestLoop_throttled_steps [of env "method" url 0 k n body timeout "[]" "[]"] assms
  by (simp add: request_def)

lemma requestLoop_retry_limit_only:
  "returned (requestLoop env n url meth body timeout a cs sl) = Inl ErrRetryLimit \<Longrightarrow>
   a \<le> i \<Longrightarrow> i < maxRetries \<Longrightarrow>
   newRequestWithContext env meth url = None \<and>
   statusCode (clientDo env i (mkRequest n url meth body timeout)) = Some StatusTooManyRequests"
proof (induction env n url meth body timeout a cs sl rule: requestLoop.induct)
  case (1 env n url meth body timeout attempt cs sl)
  let ?req = "mkRequest n url meth body timeout"
  from "1.prems" have lt: "attempt < maxRetries" by simp
  have nr: "newRequestWithContext env meth url = None"
    using "1.prems"(1) lt
    by (subst (asm) requestLoop.simps) (auto split: option.splits)
  obtain st b where d: "clientDo env attempt ?req = DoResponse StatusTooManyRequests st b"
    using "1.prems"(1) lt nr
    by (subst (asm) requestLoop.simps)
       (auto simp: Let_def split: doResult.splits if_splits sum.splits)
  have nxt: "returned (requestLoop env n url meth body timeout (attempt + 1)
                (cs @ [?req]) (sl @ [backoff env attempt])) = Inl ErrRetryLimit"
    using "1.prems"(1) lt nr d
    by (subst (asm) requestLoop.simps) simp
  show ?case
  proof (cases "i = attempt")
    case True
    with nr d show ?thesis by simp
  next
    case False
    with "1.prems" have "attempt + 1 \<le> i" by simp
    from "1.IH" [OF lt nr refl refl d refl nxt this "1.prems"(3)]
    show ?thesis .
  qed
qed

text \<open>
  Claim C4. When the request can be built and every one of the \<open>maxRetries\<close> attempts
  is answered with HTTP 429, \<open>request\<close> performs exactly 12 calls and returns the
  retry-limit error, whose message is "error downloading json: exceeded retry limit".
  Conversely that error is returned only then: no run that stops on a failed attempt
  returns it.
\<close>

theorem request_retry_limit:
  "(newRequestWithContext env method url = None \<and>
    (\<forall>i<maxRetries. statusCode (clientDo env i (mkRequest n url method body timeout))
        = Some StatusTooManyRequests)
    \<longrightarrow> returned (request env n url method body timeout) = Inl ErrRetryLimit \<and>
        Error ErrRetryLimit = ''error downloading json: exceeded retry limit'' \<and>
        length (calls (request env n url method body timeout)) = 12 \<and>
        calls (request env n url method body timeout)
          = replicate maxRetries (mkRequest n url method body timeout))
   \<and> (returned (request env n url method body timeout) = Inl ErrRetryLimit
    \<longrightarrow> newRequestWithContext env method url = None \<and>
        (\<forall>i<maxRetries. statusCode (clientDo env i (mkRequest n url method body timeout))
           = Some StatusTooManyRequests))"
proof (intro conjI impI)
  assume h: "newRequestWithContext env method url = None \<and>
    (\<forall>i<maxRetries. statusCode (clientDo env i (mkRequest n url method body timeout))
        = Some StatusTooManyRequests)"
  then have eq: "request env n url method body timeout =
      requestLoop env n url method body timeout maxRetries
        (replicate maxRetries (mkRequest n url method body timeout))
        (map (backoff env) [0 ..< maxRetries])"
    by (intro request_throttled_prefix) simp_all
  have fin: "requestLoop env n url method body timeout maxRetries cs sl =
      \<lparr>returned = Inl ErrRetryLimit, calls = cs, sleeps = sl\<rparr>" for cs sl
    by (subst requestLoop.simps) simp
  show "returned (request env n url method body timeout) = Inl ErrRetryLimit"
    by (simp add: eq fin)
  show "Error ErrRetryLimit = ''error downloading json: exceeded retry limit''"
    by simp
  show "length (calls (request env n url method body timeout)) = 12"
    unfolding eq fin by (simp add: maxRetries_def)
  show "calls (request env n url method body timeout)
          = replicate maxRetries (mkRequest n url method body timeout)"
    by (simp add: eq fin)
next
  assume r: "returned (request env n url method body timeout) = Inl ErrRetryLimit"
  have pos: "0 < maxRetries" by (simp add: maxRetries_def)
  from r show "newRequestWithContext env method url = None"
    unfolding request_def using requestLoop_retry_limit_only [of _ _ _ _ _ _ 0 _ _ 0] pos
    by blast
  from r show "\<forall>i<maxRetries. statusCode (clientDo env i (mkRequest n url method body timeout))
           = Some StatusTooManyRequests"
    unfolding request_def using requestLoop_retry_limit_only [of _ _ _ _ _ _ 0]
    by blast
qed

theorem request_retry_limit_witness:
  "newRequestWithContext (throttledThen 12 (DoError ''unreachable'')) ''GET'' ''https://api'' = None \<and>
   list_all (\<lambda>i. statusCode (clientDo (throttledThen 12 (DoError ''unreachable'')) i
        (mkRequest exampleClient ''https://api'' ''GET'' [] 0)) = Some StatusTooManyRequests)
     [0 ..< maxRetries] \<and>
   returned (request (throttledThen 12 (DoError ''unreachable'')) exampleClient ''https://api'' ''GET'' [] 0)
     = Inl ErrRetryLimit \<and>
   length (calls (request (throttledThen 12 (DoError ''unreachable'')) exampleClient ''https://api'' ''GET'' [] 0))
     = 12"
  using request_retry_limit [of "throttledThen 12 (DoError ''unreachable'')" "''GET''" "''https://api''"
     exampleClient "[]" 0]
  by (simp add: throttledThen_def maxRetries_def StatusTooManyRequests_def list_all_iff)

text \<open>
  Claim C5. An attempt that fails in the transport, or is answered with a status that
  is neither 200 nor 429, ends \<open>request\<close> with an error at once: after \<open>k\<close>
  throttled attempts it has performed \<open>k + 1\<close> calls and no more. For \<open>k = 0\<close>
  this is exactly one call, and no sleep.
\<close>

theorem request_no_retry_on_failure:
  assumes "newRequestWithContext env method url = None"
    and "k < maxRetries"
    and "\<forall>i<k. statusCode (clientDo env i (mkRequest n url method body timeout))
           = Some StatusTooManyRequests"
  shows "(clientDo env k (mkRequest n url method body timeout) = DoError e \<longrightarrow>
            request env n url method body timeout =
              \<lparr>returned = Inl (ErrDownloadingJSON e),
               calls = replicate (k + 1) (mkRequest n url method body timeout),
               sleeps = map (backoff env) [0 ..< k]\<rparr>) \<and>
         (clientDo env k (mkRequest n url method body timeout) = DoResponse code status rbody \<and>
          code \<noteq> StatusOK \<and> code \<noteq> StatusTooManyRequests \<longrightarrow>
            request env n url method body timeout =
              \<lparr>returned = Inl (ErrStatus status),
               calls = replicate (k + 1) (mkRequest n url method body timeout),
               sleeps = map (backoff env) [0 ..< k]\<rparr>)"
proof -
  have eq: "request env n url method body timeout =
      requestLoop env n url method body timeout k
        (replicate k (mkRequest n url method body timeout)) (map (backoff env) [0 ..< k])"
    using assms by (intro request_throttled_prefix) simp_all
  show ?thesis
    unfolding eq using assms(1,2)
    by (subst requestLoop.simps, subst requestLoop.simps)
       (simp add: Let_def replicate_append_same)
qed

text \<open>
  Claim C6, amended. After \<open>k < maxRetries\<close> answers with status 429, a 200 answer
  makes \<open>request\<close> return at once, after \<open>k + 1\<close> calls and \<open>k\<close> sleeps: it returns
  the body of the 200 response when \<open>io.ReadAll\<close> reads it in full, and the error
  "error reading response body" when the read fails.
\<close>

theorem request_returns_body_after_throttling:
  assumes "newRequestWithContext env method url = None"
    and "k < maxRetries"
    and "\<forall>i<k. statusCode (clientDo env i (mkRequest n url method body timeout))
           = Some StatusTooManyRequests"
    and "clientDo env k (mkRequest n url method body timeout) = DoResponse StatusOK status rbody"
  shows "request env n url method body timeout =
           \<lparr>returned = (case rbody of
                          Inl e \<Rightarrow> Inl (ErrReadingBody e)
                        | Inr respBody \<Rightarrow> Inr respBody),
            calls = replicate (k + 1) (mkRequest n url method body timeout),
            sleeps = map (backoff env) [0 ..< k]\<rparr>"
proof -
  have eq: "request env n url method body timeout =
      requestLoop env n url method body timeout k
        (replicate k (mkRequest n url method body timeout)) (map (backoff env) [0 ..< k])"
    using assms by (intro request_throttled_prefix) simp_all
  show ?thesis
    unfolding eq using assms(1,2,4)
    by (subst requestLoop.simps)
       (simp add: Let_def StatusOK_def StatusTooManyRequests_def replicate_append_same
          split: sum.splits)
qed

theorem request_no_retry_on_failure_witness:
  "newRequestWithContext (throttledThen 0 (DoError ''connection refused'')) ''GET'' ''https://api'' = None \<and>
   (0::nat) < maxRetries \<and>
   clientDo (throttledThen 0 (DoError ''connection refused'')) 0
      (mkRequest exampleClient ''https://api'' ''GET'' [] 0) = DoError ''connection refused'' \<and>
   request (throttledThen 0 (DoError ''connection refused'')) exampleClient ''https://api'' ''GET'' [] 0 =
     \<lparr>returned = Inl (ErrDownloadingJSON ''connection refused''),
      calls = [mkRequest exampleClient ''https://api'' ''GET'' [] 0], sleeps = []\<rparr> \<and>
   clientDo (throttledThen 2 (DoResponse 500 ''500 Internal Server Error'' (Inr []))) 2
      (mkRequest exampleClient ''https://api'' ''GET'' [] 0)
     = DoResponse 500 ''500 Internal Server Error'' (Inr []) \<and>
   (500::int) \<noteq> StatusOK \<and> (500::int) \<noteq> StatusTooManyRequests \<and>
   returned (request (throttledThen 2 (DoResponse 500 ''500 Internal Server Error'' (Inr []))) exampleClient
      ''https://api'' ''GET'' [] 0) = Inl (ErrStatus ''500 Internal Server Error'') \<and>
   length (calls (request (throttledThen 2 (DoResponse 500 ''500 Internal Server Error'' (Inr [])))
      exampleClient ''https://api'' ''GET'' [] 0)) = 3"
  using request_no_retry_on_failure [of "throttledThen 0 (DoError ''connection refused'')"
      "''GET''" "''https://api''" 0 exampleClient "[]" 0 "''connection refused''"]
    request_no_retry_on_failure [of "throttledThen 2 (DoResponse 500 ''500 Internal Server Error'' (Inr []))"
      "''GET''" "''https://api''" 2 exampleClient "[]" 0 _ 500 "''500 Internal Server Error''" "Inr []"]
  by (simp add: throttledThen_def maxRetries_def StatusOK_def StatusTooManyRequests_def)

theorem request_returns_body_after_throttling_witness:
  "newRequestWithContext (throttledThen 3 (DoResponse 200 ''200 OK'' (Inr ''{}''))) ''GET'' ''https://api'' = None \<and>
   (3::nat) < maxRetries \<and>
   list_all (\<lambda>i. statusCode (clientDo (throttledThen 3 (DoResponse 200 ''200 OK'' (Inr ''{}''))) i
        (mkRequest exampleClient ''https://api'' ''GET'' [] defaultRequestTimeout))
          = Some StatusTooManyRequests)
     [0 ..< 3] \<and>
   clientDo (throttledThen 3 (DoResponse 200 ''200 OK'' (Inr ''{}''))) 3
        (mkRequest exampleClient ''https://api'' ''GET'' [] defaultRequestTimeout)
     = DoResponse StatusOK ''200 OK'' (Inr ''{}'') \<and>
   returned (request (throttledThen 3 (DoResponse 200 ''200 OK'' (Inr ''{}''))) exampleClient
        ''https://api'' ''GET'' [] defaultRequestTimeout) = Inr ''{}'' \<and>
   length (calls (request (throttledThen 3 (DoResponse 200 ''200 OK'' (Inr ''{}''))) exampleClient
        ''https://api'' ''GET'' [] defaultRequestTimeout)) = 4"
  using request_returns_body_after_throttling [of "throttledThen 3 (DoResponse 200 ''200 OK'' (Inr ''{}''))"
      "''GET''" "''https://api''" 3 exampleClient "[]" defaultRequestTimeout "''200 OK''" "Inr ''{}''"]
  by (simp add: throttledThen_def maxRetries_def StatusOK_def StatusTooManyRequests_def list_all_iff)

text \<open>
  A 200 response whose body cannot be read, after three throttled attempts: \<open>request\<close>
  returns the read error, not a body.
\<close>

theorem request_body_read_failure_counterexample:
  "clientDo (throttledThen 3 (DoResponse 200 ''200 OK'' (Inl ''unexpected EOF''))) 3
        (mkRequest exampleClient ''https://api'' ''GET'' [] defaultRequestTimeout)
     = DoResponse StatusOK ''200 OK'' (Inl ''unexpected EOF'') \<and>
   request (throttledThen 3 (DoResponse 200 ''200 OK'' (Inl ''unexpected EOF''))) exampleClient
        ''https://api'' ''GET'' [] defaultRequestTimeout
     = \<lparr>returned = Inl (ErrReadingBody ''unexpected EOF''),
        calls = replicate 4 (mkRequest exampleClient ''https://api'' ''GET'' [] defaultRequestTimeout),
        sleeps = map (backoff (throttledThen 3 (DoResponse 200 ''200 OK'' (Inl ''unexpected EOF''))))
                   [0 ..< 3]\<rparr> \<and>
   Error (ErrReadingBody ''unexpected EOF'') = ''error reading response body: unexpected EOF''"
proof (intro conjI)
  let ?env = "throttledThen 3 (DoResponse 200 ''200 OK'' (Inl ''unexpected EOF''))"
  let ?req = "mkRequest exampleClient ''https://api'' ''GET'' [] defaultRequestTimeout"
  show "clientDo ?env 3 ?req = DoResponse StatusOK ''200 OK'' (Inl ''unexpected EOF'')"
    by (simp add: throttledThen_def StatusOK_def)
  have eq: "request ?env exampleClient ''https://api'' ''GET'' [] defaultRequestTimeout =
      requestLoop ?env exampleClient ''https://api'' ''GET'' [] defaultRequestTimeout 3
        (replicate 3 ?req) (map (backoff ?env) [0 ..< 3])"
    by (intro request_throttled_prefix)
       (simp_all add: throttledThen_def maxRetries_def StatusTooManyRequests_def)
  show "request ?env exampleClient ''https://api'' ''GET'' [] defaultRequestTimeout
     = \<lparr>returned = Inl (ErrReadingBody ''unexpected EOF''),
        calls = replicate 4 ?req, sleeps = map (backoff ?env) [0 ..< 3]\<rparr>"
    unfolding eq
    by (subst requestLoop.simps)
       (simp add: Let_def throttledThen_def maxRetries_def StatusOK_def StatusTooManyRequests_def
          numeral_3_eq_3 eval_nat_numeral)
  show "Error (ErrReadingBody ''unexpected EOF'') = ''error reading response body: unexpected EOF''"
    by simp
qed

section \<open>Properties of the webhook path\<close>

lemma TrimSpace_random_text: "TrimSpace ''random text'' = ''random text''"
proof -
  have l: "leadingSpace ''random text'' = None"
    by (simp add: leadingSpace_def unicodeSpaces_def HasPrefix_def)
  have t: "trailingSpace ''random text'' = None"
    by (simp add: trailingSpace_def unicodeSpaces_def HasSuffix_def)
  show ?thesis
    by (simp add: TrimSpace_def TrimLeftSpace.simps [of "''random text''"]
          TrimRightSpace.simps [of "''random text''"] l t)
qed

text \<open>
  Claim C1 says that the mention flag is true exactly when the text begins with
  \<open>"@" + botUsername\<close>, and that the prefix is then stripped. The code computes the
  flag as the negation of \<open>HasPrefix\<close>: with the username "bot", the text "@bot hello"
  gives \<open>IsMention = False\<close> and keeps its prefix, and "random text" gives
  \<open>IsMention = True\<close>.
\<close>

theorem parseCastData_mention_flag_inverted:
  "map_sum id (\<lambda>(data1, message). IsMention message) (parseCastData n data) =
     (if dObject data \<noteq> neynarCastType then Inl (ErrInvalidObject (dObject data))
      else Inr (\<not> HasPrefix (dText data) (''@'' @ username n))) \<and>
   parseCastData exampleClient (castWith ''@bot hello'') =
     Inr (castWith ''@bot hello'',
          \<lparr>IsMention = False, Content = ''@bot hello'', Author = 3, Hash = ''0xabc'',
           Parent = None, Embeds = []\<rparr>) \<and>
   parseCastData exampleClient (castWith ''random text'') =
     Inr (castWith ''random text'',
          \<lparr>IsMention = True, Content = ''random text'', Author = 3, Hash = ''0xabc'',
           Parent = None, Embeds = []\<rparr>)"
proof (intro conjI)
  show "map_sum id (\<lambda>(data1, message). IsMention message) (parseCastData n data) =
     (if dObject data \<noteq> neynarCastType then Inl (ErrInvalidObject (dObject data))
      else Inr (\<not> HasPrefix (dText data) (''@'' @ username n)))"
    by (simp add: parseCastData_def Let_def)
  show "parseCastData exampleClient (castWith ''@bot hello'') =
     Inr (castWith ''@bot hello'',
          \<lparr>IsMention = False, Content = ''@bot hello'', Author = 3, Hash = ''0xabc'',
           Parent = None, Embeds = []\<rparr>)"
    by (simp add: parseCastData_def exampleClient_def castWith_def HasPrefix_def
          neynarCastType_def Let_def)
  show "parseCastData exampleClient (castWith ''random text'') =
     Inr (castWith ''random text'',
          \<lparr>IsMention = True, Content = ''random text'', Author = 3, Hash = ''0xabc'',
           Parent = None, Embeds = []\<rparr>)"
    by (simp add: parseCastData_def exampleClient_def castWith_def HasPrefix_def
          neynarCastType_def TrimPrefix_def TrimSpace_random_text Let_def)
qed

text \<open>
  Claim C3 says that a request whose signature does not match is refused and never
  reaches the payload handler. \<open>verifyRequest\<close> never returns an error, and the handler
  tests the verdict only under an error: for every signature the payload handler runs.
  An unsigned request with a cast payload is answered "ok" and enters the queue.
\<close>

theorem WebhookHttpHandler_runs_unverified:
  "verifyRequest lib webhookSecret signature bs
     = (signature = hmacSHA512Hex lib webhookSecret bs, None) \<and>
   WebhookHttpHandler lib webhookSecret handler \<lparr>inBody = Inr bs, inSignature = signature\<rparr> w s
     = runHandler handler bs w s \<and>
   [] \<noteq> hmacSHA512Hex exampleLib ''s'' ''cast'' \<and>
   WebhookHttpHandler exampleLib ''s'' (WebhookMentionsHandler exampleLib)
       \<lparr>inBody = Inr ''cast'', inSignature = []\<rparr>
       \<lparr>wStatus = None, wBody = [], wBroken = False\<rparr> exampleClient
     = (\<lparr>wStatus = Some 200, wBody = ''ok'', wBroken = False\<rparr>,
        exampleClient\<lparr>newCasts := [1709287200 \<mapsto> messageWith ''hello'']\<rparr>)"
proof (intro conjI)
  show "verifyRequest lib webhookSecret signature bs
     = (signature = hmacSHA512Hex lib webhookSecret bs, None)"
    by (simp add: verifyRequest_def)
  show "WebhookHttpHandler lib webhookSecret handler \<lparr>inBody = Inr bs, inSignature = signature\<rparr> w s
     = runHandler handler bs w s"
    by (simp add: WebhookHttpHandler_def verifyRequest_def)
  show "[] \<noteq> hmacSHA512Hex exampleLib ''s'' ''cast''"
    by (simp add: exampleLib_def)
  have p: "parseCastData exampleClient (castWith ''hello'') = Inr (castWith ''hello'', messageWith ''hello'')"
  proof -
    have l: "leadingSpace ''hello'' = None"
      by (simp add: leadingSpace_def unicodeSpaces_def HasPrefix_def)
    have t: "trailingSpace ''hello'' = None"
      by (simp add: trailingSpace_def unicodeSpaces_def HasSuffix_def)
    have "TrimSpace ''hello'' = ''hello''"
      by (simp add: TrimSpace_def TrimLeftSpace.simps [of "''hello''"]
          TrimRightSpace.simps [of "''hello''"] l t)
    then show ?thesis
      by (simp add: parseCastData_def exampleClient_def castWith_def messageWith_def HasPrefix_def
        neynarCastType_def TrimPrefix_def Let_def)
  qed
  have h: "WebhookMentionsHandler exampleLib ''cast'' exampleClient =
      (None, exampleClient\<lparr>newCasts := [1709287200 \<mapsto> messageWith ''hello'']\<rparr>)"
    by (simp add: WebhookMentionsHandler_def exampleLib_def neynarCastCreatedType_def p Record_def)
       (simp add: castWith_def exampleClient_def)
  show "WebhookHttpHandler exampleLib ''s'' (WebhookMentionsHandler exampleLib)
       \<lparr>inBody = Inr ''cast'', inSignature = []\<rparr>
       \<lparr>wStatus = None, wBody = [], wBroken = False\<rparr> exampleClient
     = (\<lparr>wStatus = Some 200, wBody = ''ok'', wBroken = False\<rparr>,
        exampleClient\<lparr>newCasts := [1709287200 \<mapsto> messageWith ''hello'']\<rparr>)"
    by (simp add: WebhookHttpHandler_def verifyRequest_def runHandler_def h Write_def WriteHeader_def
          StatusOK_def)
qed

text \<open>
  Claim C9. A payload that decodes and whose type is not "cast.created" makes
  \<open>WebhookMentionsHandler\<close> return no error and leave the client, and so the queue,
  as it was; a payload that does not decode is reported as an error.
\<close>

theorem WebhookMentionsHandler_ignores_other_types:
  "(jsonUnmarshal lib body = Inr castWebhookReq \<and> wType castWebhookReq \<noteq> neynarCastCreatedType
      \<longrightarrow> WebhookMentionsHandler lib body n = (None, n)) \<and>
   (jsonUnmarshal lib body = Inl e
      \<longrightarrow> WebhookMentionsHandler lib body n = (Some (ErrUnmarshal e), n))"
  by (simp add: WebhookMentionsHandler_def)

theorem WebhookMentionsHandler_ignores_other_types_witness:
  "jsonUnmarshal exampleLib ''follow'' = Inr \<lparr>wType = ''follow.created'', wData = None\<rparr> \<and>
   wType \<lparr>wType = ''follow.created'', wData = None\<rparr> \<noteq> neynarCastCreatedType \<and>
   WebhookMentionsHandler exampleLib ''follow'' exampleClient = (None, exampleClient) \<and>
   jsonUnmarshal exampleLib ''{'' = Inl ''unexpected end of JSON input'' \<and>
   WebhookMentionsHandler exampleLib ''{'' exampleClient
     = (Some (ErrUnmarshal ''unexpected end of JSON input''), exampleClient)"
  using WebhookMentionsHandler_ignores_other_types [of exampleLib "''follow''"
          "\<lparr>wType = ''follow.created'', wData = None\<rparr>" exampleClient]
    WebhookMentionsHandler_ignores_other_types [of exampleLib "''{''" _ exampleClient
          "''unexpected end of JSON input''"]
  by (simp add: exampleLib_def neynarCastCreatedType_def)

section \<open>Properties of the mention queue\<close>

lemma rangeNewCasts_eq:
  "set order \<subseteq> dom m \<Longrightarrow>
   rangeNewCasts m timestamp order messages lastTimestamp =
     (messages @ map (\<lambda>ts. the (m ts)) (filter (\<lambda>ts. timestamp < ts) order),
      last (lastTimestamp # filter (\<lambda>ts. timestamp < ts) order))"
proof (induction order arbitrary: messages lastTimestamp)
  case Nil
  then show ?case by simp
next
  case (Cons ts rest)
  then obtain msg where "m ts = Some msg" by auto
  with Cons show ?case by simp
qed

lemma distinct_singleton_set:
  assumes "distinct xs" and "set xs = {a}"
  shows "xs = [a]"
proof (cases xs)
  case Nil
  with assms(2) show ?thesis by simp
next
  case (Cons x ys)
  with assms(2) have x: "x = a" by auto
  have "set ys \<subseteq> {a}" using assms(2) Cons by auto
  moreover have "a \<notin> set ys" using assms(1) Cons x by simp
  ultimately have "ys = []" by (cases ys) auto
  then show ?thesis using Cons x by simp
qed

text \<open>
  Claim C2 says that the new watermark is the maximum timestamp among the returned
  events. The loop of \<open>LastMentions\<close> assigns the timestamp of each qualifying key as
  it visits it and compares nothing, so the new watermark is the timestamp visited
  last: with the keys 10 and 20 in the queue and the watermark 5, the order 20, 10
  gives the new watermark 10, and the order 10, 20 gives 20.
\<close>

theorem LastMentions_watermark_not_maximum:
  "LastMentions (Record 20 (messageWith ''e2'') (Record 10 (messageWith ''e1'') exampleClient))
      [20, 10] 5 =
     (Inr ([messageWith ''e2'', messageWith ''e1''], 10), exampleClient) \<and>
   (10 :: uint64) < 20 \<and>
   LastMentions (Record 20 (messageWith ''e2'') (Record 10 (messageWith ''e1'') exampleClient))
      [10, 20] 5 =
     (Inr ([messageWith ''e1'', messageWith ''e2''], 20), exampleClient)"
  by (simp add: LastMentions_def exampleClient_def Record_def)

text \<open>
  Claim C8, amended. With the farcaster user set and a timestamp \<open>t1 > 0\<close>, storing
  \<open>e1\<close> and then \<open>e2\<close> under \<open>t1\<close> leaves the client as if only \<open>e2\<close> had been stored;
  draining from watermark 0 delivers \<open>e2\<close> for the bucket \<open>t1\<close>, and when the queue
  was empty before it delivers \<open>e2\<close> alone, with new watermark \<open>t1\<close>.
\<close>

theorem Record_last_write_wins:
  assumes "fid n \<noteq> 0" and "0 < t1" and "distinct order"
    and "set order = dom (newCasts (Record t1 e2 (Record t1 e1 n)))"
  shows "Record t1 e2 (Record t1 e1 n) = Record t1 e2 n \<and>
         (\<exists>newTimestamp.
            fst (LastMentions (Record t1 e2 (Record t1 e1 n)) order 0) =
              Inr (map (\<lambda>ts. if ts = t1 then e2 else the (newCasts n ts))
                     (filter (\<lambda>ts. 0 < ts) order), newTimestamp)) \<and>
         t1 \<in> set (filter (\<lambda>ts. 0 < ts) order) \<and>
         (newCasts n = Map.empty \<longrightarrow>
            LastMentions (Record t1 e2 (Record t1 e1 n)) order 0 = (Inr ([e2], t1), n))"
proof (intro conjI impI)
  show rec: "Record t1 e2 (Record t1 e1 n) = Record t1 e2 n"
    by (simp add: Record_def)
  have sub: "set order \<subseteq> dom ((newCasts n)(t1 \<mapsto> e2))"
    using assms(4) by (simp add: Record_def)
  have fidr: "fid (Record t1 e2 n) \<noteq> 0"
    using assms(1) by (simp add: Record_def)
  have run: "LastMentions (Record t1 e2 n) order 0 =
      (Inr (map (\<lambda>ts. the (newCasts (Record t1 e2 n) ts)) (filter (\<lambda>ts. 0 < ts) order),
            last (0 # filter (\<lambda>ts. 0 < ts) order)),
       Record t1 e2 n\<lparr>newCasts := Map.empty\<rparr>)"
    unfolding LastMentions_def using fidr
    by (simp add: Record_def rangeNewCasts_eq [OF sub] del: last.simps)
  have m: "(\<lambda>ts. the (newCasts (Record t1 e2 n) ts)) = (\<lambda>ts. if ts = t1 then e2 else the (newCasts n ts))"
    by (auto simp: Record_def)
  show "\<exists>newTimestamp.
            fst (LastMentions (Record t1 e2 (Record t1 e1 n)) order 0) =
              Inr (map (\<lambda>ts. if ts = t1 then e2 else the (newCasts n ts))
                     (filter (\<lambda>ts. 0 < ts) order), newTimestamp)"
    unfolding rec run m by simp
  show "t1 \<in> set (filter (\<lambda>ts. 0 < ts) order)"
    using assms(2,4) by (simp add: Record_def)
next
  assume e: "newCasts n = Map.empty"
  have rec: "Record t1 e2 (Record t1 e1 n) = Record t1 e2 n"
    by (simp add: Record_def)
  have "set order = {t1}" using assms(4) e by (simp add: Record_def)
  with assms(3) have o: "order = [t1]"
    by (rule distinct_singleton_set)
  have "n\<lparr>newCasts := Map.empty\<rparr> = n" using e by simp
  then show "LastMentions (Record t1 e2 (Record t1 e1 n)) order 0 = (Inr ([e2], t1), n)"
    using assms(1,2) by (simp add: rec o LastMentions_def Record_def)
qed

theorem Record_last_write_wins_witness:
  "fid exampleClient \<noteq> 0 \<and> (0 :: uint64) < 5 \<and> distinct [5 :: uint64] \<and>
   set [5 :: uint64]
     = dom (newCasts (Record 5 (messageWith ''e2'') (Record 5 (messageWith ''e1'') exampleClient))) \<and>
   LastMentions (Record 5 (messageWith ''e2'') (Record 5 (messageWith ''e1'') exampleClient)) [5] 0
     = (Inr ([messageWith ''e2''], 5), exampleClient)"
  using Record_last_write_wins [of exampleClient 5 "[5]" "messageWith ''e2''" "messageWith ''e1''"]
  by (simp add: exampleClient_def Record_def)

text \<open>
  At \<open>t1 = 0\<close> the stored event is not strictly above the watermark 0: the drain
  delivers nothing.
\<close>

theorem Record_zero_timestamp_counterexample:
  "LastMentions (Record 0 (messageWith ''e2'') (Record 0 (messageWith ''e1'') exampleClient)) [0] 0
     = (Inr ([], 0), exampleClient) \<and>
   newCasts (Record 0 (messageWith ''e2'') (Record 0 (messageWith ''e1'') exampleClient)) 0
     = Some (messageWith ''e2'')"
  by (simp add: LastMentions_def exampleClient_def Record_def)

section \<open>Properties of posting\<close>

text \<open>
  Claim C10, amended. For content longer than \<open>MaxCastBytes\<close> (350 bytes), \<open>Publish\<close>
  and \<open>Reply\<close> return before any HTTP call and leave the client unchanged; the error
  is "content is too long" when the farcaster user is set, and "farcaster user not set"
  when it is not, since that check comes first.
\<close>

theorem Publish_Reply_content_too_long:
  assumes "length content > MaxCastBytes"
  shows "Publish lib env n content embeds
           = (Some (if fid n = 0 then ErrUserNotSet else ErrContentTooLong), [], n) \<and>
         Reply lib env n targetMsg content embeds
           = (Some (if fid n = 0 then ErrUserNotSet else ErrContentTooLong), [], n)"
  using assms by (simp add: Publish_def Reply_def)

theorem Publish_Reply_content_too_long_witness:
  "length (replicate 351 CHR ''a'') > MaxCastBytes \<and>
   Publish exampleLib (throttledThen 0 (DoResponse 200 ''200 OK'' (Inr []))) exampleClient
       (replicate 351 CHR ''a'') []
     = (Some ErrContentTooLong, [], exampleClient) \<and>
   Reply exampleLib (throttledThen 0 (DoResponse 200 ''200 OK'' (Inr []))) exampleClient
       (Some (messageWith ''hello'')) (replicate 351 CHR ''a'') []
     = (Some ErrContentTooLong, [], exampleClient)"
  using Publish_Reply_content_too_long [of "replicate 351 CHR ''a''" exampleLib
          "throttledThen 0 (DoResponse 200 ''200 OK'' (Inr []))" exampleClient "[]"
          "Some (messageWith ''hello'')"]
  by (simp add: MaxCastBytes_def exampleClient_def)

theorem Publish_user_not_set_counterexample:
  "NewNeynarAPI ''key'' = Inr freshClient \<and>
   length (replicate 351 CHR ''a'') > MaxCastBytes \<and>
   Publish exampleLib (throttledThen 0 (DoResponse 200 ''200 OK'' (Inr []))) freshClient
       (replicate 351 CHR ''a'') []
     = (Some ErrUserNotSet, [], freshClient) \<and>
   Reply exampleLib (throttledThen 0 (DoResponse 200 ''200 OK'' (Inr []))) freshClient
       (Some (messageWith ''hello'')) (replicate 351 CHR ''a'') []
     = (Some ErrUserNotSet, [], freshClient) \<and>
   Error ErrUserNotSet = ''farcaster user not set'' \<and>
   Error ErrUserNotSet \<noteq> Error ErrContentTooLong"
  by (simp add: MaxCastBytes_def Publish_def Reply_def NewNeynarAPI_def freshClient_def)

section \<open>Properties of the semaphore\<close>

lemma count_list_update:
  "i < length xs \<Longrightarrow>
   length (filter P (xs[i := y])) + (if P (xs ! i) then 1 else 0)
     = length (filter P xs) + (if P y then 1 else 0)"
proof (induction xs arbitrary: i)
  case Nil
  then show ?case by simp
next
  case (Cons x xs)
  show ?case
  proof (cases i)
    case 0
    then show ?thesis by simp
  next
    case (Suc j)
    with Cons.prems have "j < length xs" by simp
    from Cons.IH [OF this] Suc show ?thesis by simp
  qed
qed

lemma count_filter_mono:
  "(\<And>x. P x \<Longrightarrow> Q x) \<Longrightarrow> length (filter P xs) \<le> length (filter Q xs)"
  by (induction xs) auto

lemma stepPC_permits:
  assumes "stepPC sem p ev = Some (sem1, p1)"
  shows "sem1 + (if betweenSendAndRecv p then 1 else 0) = sem + (if betweenSendAndRecv p1 then 1 else 0)"
    and "sem \<le> maxConcurrentRequests \<Longrightarrow> sem1 \<le> maxConcurrentRequests"
  using assms
  by (cases p; auto split: if_splits doResult.splits)+

lemma step_semInv:
  assumes "semInv s" and "step s ev = Some s1"
  shows "semInv s1"
proof -
  let ?i = "evGoroutine ev"
  from assms(2) have i: "?i < length (goroutines s)"
    by (auto simp: step_def split: if_splits)
  from assms(2) i obtain sem1 pc1 where
    st: "stepPC (reqSemaphore s) (goroutines s ! ?i) ev = Some (sem1, pc1)" and
    s1: "s1 = \<lparr>goroutines = (goroutines s)[?i := pc1], reqSemaphore = sem1\<rparr>"
    by (auto simp: step_def split: option.splits)
  note c = count_list_update [OF i, of betweenSendAndRecv pc1]
  note p = stepPC_permits [OF st]
  from assms(1) have "sem1 \<le> maxConcurrentRequests"
    using p(2) by (simp add: semInv_def)
  moreover have "sem1 = length (filter betweenSendAndRecv ((goroutines s)[?i := pc1]))"
    using c p(1) assms(1) by (simp add: semInv_def permitsHeld_def split: if_splits)
  ultimately show ?thesis
    by (simp add: semInv_def permitsHeld_def s1)
qed

lemma exec_semInv:
  "semInv s \<Longrightarrow> exec s evs = Some s1 \<Longrightarrow> semInv s1"
proof (induction evs arbitrary: s)
  case Nil
  then show ?case by simp
next
  case (Cons ev evs)
  then show ?case
    by (auto split: option.splits dest: step_semInv)
qed

lemma semInv_initial: "semInv (initialRun callers)"
  by (simp add: semInv_def initialRun_def permitsHeld_def)

lemma soloRun_requestLoop:
  "soloRun (worldOf env n url method body timeout) 0 (ForLoop attempt) (length cs) =
     Some (0, length (calls (requestLoop env n url method body timeout attempt cs sl)))"
proof (induction env n url "method" body timeout attempt cs sl rule: requestLoop.induct)
  case (1 env n url meth body timeout attempt cs sl)
  let ?W = "worldOf env n url meth body timeout"
  let ?req = "mkRequest n url meth body timeout"
  show ?case
  proof (cases "attempt < maxRetries")
    case False
    then show ?thesis
      by (subst soloRun.simps, subst soloRun.simps, subst requestLoop.simps) simp
  next
    case lt: True
    show ?thesis
    proof (cases "newRequestWithContext env meth url")
      case (Some e)
      with lt show ?thesis
        by (subst soloRun.simps, subst soloRun.simps, subst requestLoop.simps)
           (simp add: worldOf_def)
    next
      case None
      have toClassify: "soloRun ?W 0 (ForLoop attempt) (length cs) =
          soloRun ?W 0 (Classify attempt (clientDo env attempt ?req)) (Suc (length cs))"
        using lt None
        by (subst soloRun.simps, subst soloRun.simps, subst soloRun.simps, subst soloRun.simps)
           (simp add: worldOf_def maxConcurrentRequests_def)
      show ?thesis
      proof (cases "clientDo env attempt ?req")
        case (DoError e)
        with lt None show ?thesis
          unfolding toClassify
          by (subst soloRun.simps, subst soloRun.simps, subst requestLoop.simps) simp
      next
        case (DoResponse code status rbody)
        show ?thesis
        proof (cases "code = StatusTooManyRequests")
          case True
          have "soloRun ?W 0 (Classify attempt (clientDo env attempt ?req)) (Suc (length cs)) =
                soloRun ?W 0 (ForLoop (attempt + 1)) (length (cs @ [?req]))"
            using DoResponse True
            by (subst soloRun.simps, subst soloRun.simps) simp
          also have "\<dots> = Some (0, length (calls (requestLoop env n url meth body timeout (attempt + 1)
                (cs @ [?req]) (sl @ [backoff env attempt]))))"
            by (rule "1.IH" [OF lt None refl refl DoResponse True])
          also have "requestLoop env n url meth body timeout (attempt + 1)
                (cs @ [?req]) (sl @ [backoff env attempt]) =
              requestLoop env n url meth body timeout attempt cs sl"
            using lt None DoResponse True
            by (subst (2) requestLoop.simps) simp
          finally show ?thesis
            unfolding toClassify .
        next
          case False
          with lt None DoResponse show ?thesis
            unfolding toClassify
            by (subst soloRun.simps, subst soloRun.simps, subst requestLoop.simps)
               (simp add: Let_def split: sum.splits)
        qed
      qed
    qed
  qed
qed

text \<open>
  Claim C7. In every state that concurrent callers of \<open>request\<close> on one client can
  reach, at most 2 calls of \<open>http.DefaultClient.Do\<close> are in flight. The channel holds
  exactly one value for each goroutine between its send and its receive, and never more
  than its capacity: a goroutine that classifies its response, sleeps before a retry or
  has returned holds no permit. The steps are those of \<open>request\<close>: a goroutine that
  runs them alone performs as many calls as \<open>request\<close> does against the same
  environment, and leaves the channel empty.
\<close>

theorem reqSemaphore_bounds_in_flight:
  assumes "exec (initialRun callers) evs = Some s"
  shows "inFlight s \<le> 2 \<and> reqSemaphore s = permitsHeld s \<and>
         permitsHeld s \<le> maxConcurrentRequests \<and>
         soloRun (worldOf env n url method body timeout) 0 (ForLoop 0) 0 =
           Some (0, length (calls (request env n url method body timeout)))"
proof -
  have inv: "semInv s"
    using exec_semInv [OF semInv_initial assms] .
  have "inFlight s \<le> permitsHeld s"
    unfolding inFlight_def permitsHeld_def
    by (rule count_filter_mono) (auto elim: inDo.elims)
  moreover have "soloRun (worldOf env n url method body timeout) 0 (ForLoop 0) 0 =
           Some (0, length (calls (request env n url method body timeout)))"
    using soloRun_requestLoop [of env n url "method" body timeout 0 "[]" "[]"]
    by (simp add: request_def)
  ultimately show ?thesis
    using inv by (simp add: semInv_def maxConcurrentRequests_def)
qed

theorem reqSemaphore_bounds_in_flight_witness:
  "exec (initialRun 3)
     (map throttledStep [0, 1, 2, 0, 1, 2, 0, 1, 0, 0, 2, 0])
     = Some \<lparr>goroutines = [Sleeping 0, ClientDo 0, ClientDo 0], reqSemaphore = 2\<rparr> \<and>
   inFlight \<lparr>goroutines = [Sleeping 0, ClientDo 0, ClientDo 0], reqSemaphore = 2\<rparr> = 2 \<and>
   permitsHeld \<lparr>goroutines = [Sleeping 0, ClientDo 0, ClientDo 0], reqSemaphore = 2\<rparr> = 2 \<and>
   exec (initialRun 3) (map throttledStep [0, 1, 2, 0, 1, 2, 0, 1, 2]) = None"
  using reqSemaphore_bounds_in_flight [of 3 "map throttledStep [0, 1, 2, 0, 1, 2, 0, 1, 0, 0, 2, 0]"
     "\<lparr>goroutines = [Sleeping 0, ClientDo 0, ClientDo 0], reqSemaphore = 2\<rparr>"]
  by (simp add: initialRun_def throttledStep_def step_def maxRetries_def
        maxConcurrentRequests_def StatusTooManyRequests_def inFlight_def permitsHeld_def
        numeral_3_eq_3)

end
